theory Spec2Isabelle
  imports Main "HOL-Library.Word"
begin

unbundle bit_operations_syntax

section \<open>Platform values: strings, buffers, faults\<close>

text \<open>
  A JavaScript string is a sequence of UTF-16 code units and \<open>s.length\<close> counts
  code units; a Node \<open>Buffer\<close> is a sequence of bytes.
\<close>

type_synonym jsstring = "16 word list"
type_synonym byte = "8 word"
type_synonym buffer = "byte list"

text \<open>The code units of a literal whose characters are all below U+0100.\<close>

definition js :: "string \<Rightarrow> jsstring" where
  "js s = map (\<lambda>c. of_nat (of_char c)) s"

text \<open>
  The only exception that the modelled code can raise: \<open>crypto.timingSafeEqual\<close>
  throws a \<open>RangeError\<close> with code \<open>ERR_CRYPTO_TIMING_SAFE_EQUAL_LENGTH\<close> when its
  two arguments differ in byte length.
\<close>

datatype error = ERR_CRYPTO_TIMING_SAFE_EQUAL_LENGTH

subsection \<open>\<open>Buffer.from(s)\<close>: UTF-8 encoding of a string\<close>

definition is_high_surrogate :: "16 word \<Rightarrow> bool" where
  "is_high_surrogate u = (0xD800 \<le> u \<and> u \<le> 0xDBFF)"

definition is_low_surrogate :: "16 word \<Rightarrow> bool" where
  "is_low_surrogate u = (0xDC00 \<le> u \<and> u \<le> 0xDFFF)"

text \<open>One code unit outside a surrogate pair; a lone surrogate becomes U+FFFD.\<close>

definition utf8_unit :: "16 word \<Rightarrow> buffer" where
  "utf8_unit u =
     (if u < 0x80 then [ucast u]
      else if u < 0x800 then
        [ucast (0xC0 OR drop_bit 6 u), ucast (0x80 OR (u AND 0x3F))]
      else if is_high_surrogate u \<or> is_low_surrogate u then [0xEF, 0xBF, 0xBD]
      else [ucast (0xE0 OR drop_bit 12 u),
            ucast (0x80 OR (drop_bit 6 u AND 0x3F)),
            ucast (0x80 OR (u AND 0x3F))])"

definition code_point :: "16 word \<Rightarrow> 16 word \<Rightarrow> 32 word" where
  "code_point hi lo =
     0x10000 + push_bit 10 (ucast hi - 0xD800) + (ucast lo - 0xDC00)"

definition utf8_pair :: "16 word \<Rightarrow> 16 word \<Rightarrow> buffer" where
  "utf8_pair hi lo =
     (let c = code_point hi lo
      in [ucast (0xF0 OR drop_bit 18 c),
          ucast (0x80 OR (drop_bit 12 c AND 0x3F)),
          ucast (0x80 OR (drop_bit 6 c AND 0x3F)),
          ucast (0x80 OR (c AND 0x3F))])"

fun utf8 :: "jsstring \<Rightarrow> buffer" where
  "utf8 [] = []"
| "utf8 [u] = utf8_unit u"
| "utf8 (u # v # vs) =
     (if is_high_surrogate u \<and> is_low_surrogate v then utf8_pair u v @ utf8 vs
      else utf8_unit u @ utf8 (v # vs))"

subsection \<open>\<open>crypto.timingSafeEqual\<close>\<close>

text \<open>
  Node compares two buffers of the same byte length with OpenSSL's \<open>CRYPTO_memcmp\<close>,
  which accumulates the bitwise differences of all positions and reports whether the
  accumulator stayed zero. Buffers of different byte length are rejected with a fault.
\<close>

definition CRYPTO_memcmp :: "buffer \<Rightarrow> buffer \<Rightarrow> byte" where
  "CRYPTO_memcmp a b = foldl (\<lambda>acc (x, y). acc OR (x XOR y)) 0 (zip a b)"

definition timingSafeEqual :: "buffer \<Rightarrow> buffer \<Rightarrow> error + bool" where
  "timingSafeEqual a b =
     (if length a \<noteq> length b then Inl ERR_CRYPTO_TIMING_SAFE_EQUAL_LENGTH
      else Inr (CRYPTO_memcmp a b = 0))"

section \<open>The comparator \<open>constantTimeEqual\<close>\<close>

text \<open>
  \<^verbatim>\<open>
  export function constantTimeEqual(a: string, b: string): boolean {
    if (a.length !== b.length) {
      return false;
    }
    return crypto.timingSafeEqual(Buffer.from(a), Buffer.from(b));
  }
  \<close>
\<close>

definition constantTimeEqual :: "jsstring \<Rightarrow> jsstring \<Rightarrow> error + bool" where
  "constantTimeEqual a b =
     (if length a \<noteq> length b then Inr False
      else timingSafeEqual (utf8 a) (utf8 b))"

section \<open>The credential handle \<open>SecureLicenseKey\<close>\<close>

text \<open>
  \<^verbatim>\<open>
  export class SecureLicenseKey {
    private key: string;
    constructor(key: string) { this.key = key; }
    asString(): string { return this.key; }
    redacted(): string {
      const len = this.key.length;
      if (len > 8) {
        return `${this.key.slice(0, 3)}...${this.key.slice(-3)}`;
      }
      return '***';
    }
    destroy(): void { this.key = '\0'.repeat(this.key.length); }
    toString(): string { return this.redacted(); }
  }
  \<close>
\<close>

record SecureLicenseKey =
  key :: jsstring

text \<open>\<open>String.prototype.slice(start, end)\<close>: negative indices count from the end.\<close>

definition slice :: "jsstring \<Rightarrow> int \<Rightarrow> int \<Rightarrow> jsstring" where
  "slice s start end =
     (let n = int (length s);
          from = (if start < 0 then max (n + start) 0 else min start n);
          to = (if end < 0 then max (n + end) 0 else min end n)
      in take (nat (to - from)) (drop (nat from) s))"

definition SecureLicenseKey_new :: "jsstring \<Rightarrow> SecureLicenseKey" where
  "SecureLicenseKey_new k = \<lparr>key = k\<rparr>"

definition asString :: "SecureLicenseKey \<Rightarrow> jsstring" where
  "asString h = key h"

definition redacted :: "SecureLicenseKey \<Rightarrow> jsstring" where
  "redacted h =
     (let len = length (key h)
      in if len > 8
         then slice (key h) 0 3 @ js ''...'' @ slice (key h) (- 3) (int len)
         else js ''***'')"

definition SecureLicenseKey_destroy :: "SecureLicenseKey \<Rightarrow> SecureLicenseKey" where
  "SecureLicenseKey_destroy h = h\<lparr>key := replicate (length (key h)) 0\<rparr>"

definition SecureLicenseKey_toString :: "SecureLicenseKey \<Rightarrow> jsstring" where
  "SecureLicenseKey_toString h = redacted h"

section \<open>Platform functions used by the request signer\<close>

subsection \<open>SHA-256 (FIPS 180-4), as computed by \<open>crypto.createHash('sha256')\<close>\<close>

type_synonym u32 = "32 word"
type_synonym hstate = "u32 \<times> u32 \<times> u32 \<times> u32 \<times> u32 \<times> u32 \<times> u32 \<times> u32"

definition K256 :: "u32 list" where
  "K256 = [
   0x428A2F98, 0x71374491, 0xB5C0FBCF, 0xE9B5DBA5, 0x3956C25B, 0x59F111F1, 0x923F82A4, 0xAB1C5ED5,
   0xD807AA98, 0x12835B01, 0x243185BE, 0x550C7DC3, 0x72BE5D74, 0x80DEB1FE, 0x9BDC06A7, 0xC19BF174,
   0xE49B69C1, 0xEFBE4786, 0x0FC19DC6, 0x240CA1CC, 0x2DE92C6F, 0x4A7484AA, 0x5CB0A9DC, 0x76F988DA,
   0x983E5152, 0xA831C66D, 0xB00327C8, 0xBF597FC7, 0xC6E00BF3, 0xD5A79147, 0x06CA6351, 0x14292967,
   0x27B70A85, 0x2E1B2138, 0x4D2C6DFC, 0x53380D13, 0x650A7354, 0x766A0ABB, 0x81C2C92E, 0x92722C85,
   0xA2BFE8A1, 0xA81A664B, 0xC24B8B70, 0xC76C51A3, 0xD192E819, 0xD6990624, 0xF40E3585, 0x106AA070,
   0x19A4C116, 0x1E376C08, 0x2748774C, 0x34B0BCB5, 0x391C0CB3, 0x4ED8AA4A, 0x5B9CCA4F, 0x682E6FF3,
   0x748F82EE, 0x78A5636F, 0x84C87814, 0x8CC70208, 0x90BEFFFA, 0xA4506CEB, 0xBEF9A3F7, 0xC67178F2]"

definition H256 :: hstate where
  "H256 = (0x6A09E667, 0xBB67AE85, 0x3C6EF372, 0xA54FF53A,
           0x510E527F, 0x9B05688C, 0x1F83D9AB, 0x5BE0CD19)"

definition rotr :: "nat \<Rightarrow> u32 \<Rightarrow> u32" where
  "rotr n x = drop_bit n x OR push_bit (32 - n) x"

definition Ch :: "u32 \<Rightarrow> u32 \<Rightarrow> u32 \<Rightarrow> u32" where
  "Ch x y z = (x AND y) XOR (NOT x AND z)"

definition Maj :: "u32 \<Rightarrow> u32 \<Rightarrow> u32 \<Rightarrow> u32" where
  "Maj x y z = (x AND y) XOR (x AND z) XOR (y AND z)"

definition Sigma0 :: "u32 \<Rightarrow> u32" where
  "Sigma0 x = rotr 2 x XOR rotr 13 x XOR rotr 22 x"

definition Sigma1 :: "u32 \<Rightarrow> u32" where
  "Sigma1 x = rotr 6 x XOR rotr 11 x XOR rotr 25 x"

definition sigma0 :: "u32 \<Rightarrow> u32" where
  "sigma0 x = rotr 7 x XOR rotr 18 x XOR drop_bit 3 x"

definition sigma1 :: "u32 \<Rightarrow> u32" where
  "sigma1 x = rotr 17 x XOR rotr 19 x XOR drop_bit 10 x"

text \<open>
  The message schedule, newest word first: with \<open>t\<close> words present, \<open>w ! 1\<close> is
  \<open>W\<^sub>t\<^sub>-\<^sub>2\<close>, \<open>w ! 6\<close> is \<open>W\<^sub>t\<^sub>-\<^sub>7\<close>, \<open>w ! 14\<close> is \<open>W\<^sub>t\<^sub>-\<^sub>1\<^sub>5\<close> and \<open>w ! 15\<close> is \<open>W\<^sub>t\<^sub>-\<^sub>1\<^sub>6\<close>.
  It is only ever applied to sixteen words or more.
\<close>

fun schedule :: "nat \<Rightarrow> u32 list \<Rightarrow> u32 list" where
  "schedule 0 w = w"
| "schedule (Suc n) w =
     schedule n ((sigma1 (w ! 1) + w ! 6 + sigma0 (w ! 14) + w ! 15) # w)"

fun rounds :: "u32 list \<Rightarrow> u32 list \<Rightarrow> hstate \<Rightarrow> hstate" where
  "rounds (k # ks) (w # ws) (a, b, c, d, e, f, g, h) =
     (let t1 = h + Sigma1 e + Ch e f g + k + w;
          t2 = Sigma0 a + Maj a b c
      in rounds ks ws (t1 + t2, a, b, c, d + t1, e, f, g))"
| "rounds _ _ st = st"

definition be32 :: "buffer \<Rightarrow> u32" where
  "be32 bs = foldl (\<lambda>acc b. push_bit 8 acc OR ucast b) 0 bs"

fun words_of :: "nat \<Rightarrow> buffer \<Rightarrow> u32 list" where
  "words_of 0 bs = []"
| "words_of (Suc n) bs = be32 (take 4 bs) # words_of n (drop 4 bs)"

definition add_state :: "hstate \<Rightarrow> hstate \<Rightarrow> hstate" where
  "add_state s t =
     (case (s, t) of ((a, b, c, d, e, f, g, h), (a', b', c', d', e', f', g', h')) \<Rightarrow>
        (a + a', b + b', c + c', d + d', e + e', f + f', g + g', h + h'))"

definition compress :: "hstate \<Rightarrow> buffer \<Rightarrow> hstate" where
  "compress hs block =
     add_state hs (rounds K256 (rev (schedule 48 (rev (words_of 16 block)))) hs)"

definition be_bytes32 :: "u32 \<Rightarrow> buffer" where
  "be_bytes32 w = [ucast (drop_bit 24 w), ucast (drop_bit 16 w), ucast (drop_bit 8 w), ucast w]"

definition be_bytes64 :: "64 word \<Rightarrow> buffer" where
  "be_bytes64 w = map (\<lambda>i. ucast (drop_bit (8 * i) w)) [7, 6, 5, 4, 3, 2, 1, 0]"

definition pad :: "buffer \<Rightarrow> buffer" where
  "pad m = m @ [0x80] @ replicate ((119 - length m mod 64) mod 64) 0
             @ be_bytes64 (of_nat (8 * length m))"

fun blocks :: "nat \<Rightarrow> hstate \<Rightarrow> buffer \<Rightarrow> hstate" where
  "blocks 0 hs bs = hs"
| "blocks (Suc n) hs bs = blocks n (compress hs (take 64 bs)) (drop 64 bs)"

definition digest_bytes :: "hstate \<Rightarrow> buffer" where
  "digest_bytes hs =
     (case hs of (a, b, c, d, e, f, g, h) \<Rightarrow>
        be_bytes32 a @ be_bytes32 b @ be_bytes32 c @ be_bytes32 d @
        be_bytes32 e @ be_bytes32 f @ be_bytes32 g @ be_bytes32 h)"

definition sha256_bytes :: "buffer \<Rightarrow> buffer" where
  "sha256_bytes m = (let p = pad m in digest_bytes (blocks (length p div 64) H256 p))"

subsection \<open>HMAC-SHA256 (RFC 2104), as computed by \<open>crypto.createHmac('sha256', key)\<close>\<close>

definition hmac_key_block :: "buffer \<Rightarrow> buffer" where
  "hmac_key_block k =
     (let k0 = (if length k > 64 then sha256_bytes k else k)
      in k0 @ replicate (64 - length k0) 0)"

definition hmac_sha256 :: "buffer \<Rightarrow> buffer \<Rightarrow> buffer" where
  "hmac_sha256 k m =
     (let kb = hmac_key_block k
      in sha256_bytes (map (\<lambda>b. b XOR 0x5c) kb @
           sha256_bytes (map (\<lambda>b. b XOR 0x36) kb @ m)))"

subsection \<open>Hexadecimal and base64 text of a buffer\<close>

definition hex_digit :: "nat \<Rightarrow> 16 word" where
  "hex_digit d = (if d < 10 then of_nat (48 + d) else of_nat (87 + d))"

definition hex_encode :: "buffer \<Rightarrow> jsstring" where
  "hex_encode bs = concat (map (\<lambda>b. [hex_digit (unat b div 16), hex_digit (unat b mod 16)]) bs)"

text \<open>The standard base64 alphabet: \<open>A-Z\<close>, \<open>a-z\<close>, \<open>0-9\<close>, \<open>+\<close>, \<open>/\<close>.\<close>

definition b64code :: "nat \<Rightarrow> nat" where
  "b64code i =
     (if i < 26 then 65 + i
      else if i < 52 then 71 + i
      else if i < 62 then i - 4
      else if i = 62 then 43
      else 47)"

definition b64char :: "nat \<Rightarrow> 16 word" where
  "b64char i = of_nat (b64code i)"

text \<open>\<open>buf.toString('base64')\<close>: groups of three bytes, padded with \<open>=\<close> (0x3D).\<close>

fun base64_encode :: "buffer \<Rightarrow> jsstring" where
  "base64_encode [] = []"
| "base64_encode [a] =
     [b64char (unat a div 4), b64char (unat a mod 4 * 16), 0x3D, 0x3D]"
| "base64_encode [a, b] =
     [b64char (unat a div 4), b64char (unat a mod 4 * 16 + unat b div 16),
      b64char (unat b mod 16 * 4), 0x3D]"
| "base64_encode (a # b # c # r) =
     [b64char (unat a div 4), b64char (unat a mod 4 * 16 + unat b div 16),
      b64char (unat b mod 16 * 4 + unat c div 64), b64char (unat c mod 64)]
     @ base64_encode r"

text \<open>
  \<open>Buffer.from(s, 'base64')\<close> never fails. Node's decoder looks only at the low
  byte of each code unit. It accepts the standard and the URL-safe alphabet, skips every
  other character, stops at the first \<open>=\<close>, and turns a final group of two or
  three characters into one or two bytes.
\<close>

definition low_byte :: "16 word \<Rightarrow> nat" where
  "low_byte c = unat c mod 256"

definition unb64code :: "nat \<Rightarrow> nat option" where
  "unb64code n =
     (if 65 \<le> n \<and> n \<le> 90 then Some (n - 65)
      else if 97 \<le> n \<and> n \<le> 122 then Some (n - 71)
      else if 48 \<le> n \<and> n \<le> 57 then Some (n + 4)
      else if n = 43 \<or> n = 45 then Some 62
      else if n = 47 \<or> n = 95 then Some 63
      else None)"

definition unbase64 :: "16 word \<Rightarrow> nat option" where
  "unbase64 c = unb64code (low_byte c)"

fun decode_sextets :: "nat list \<Rightarrow> buffer" where
  "decode_sextets (a # b # c # d # r) =
     [of_nat (a * 4 + b div 16), of_nat (b mod 16 * 16 + c div 4), of_nat (c mod 4 * 64 + d)]
     @ decode_sextets r"
| "decode_sextets [a, b, c] = [of_nat (a * 4 + b div 16), of_nat (b mod 16 * 16 + c div 4)]"
| "decode_sextets [a, b] = [of_nat (a * 4 + b div 16)]"
| "decode_sextets _ = []"

definition Buffer_from_base64 :: "jsstring \<Rightarrow> buffer" where
  "Buffer_from_base64 s =
     decode_sextets (List.map_filter unbase64 (takeWhile (\<lambda>c. low_byte c \<noteq> 61) s))"

subsection \<open>Numbers and JSON text\<close>

text \<open>
  \<open>Number.prototype.toString()\<close> on an integral number: its decimal digits. This is
  the JavaScript text for integers below \<open>2\<^sup>5\<^sup>3\<close> in magnitude, which covers clock
  seconds; beyond, JavaScript numbers are not all the integers and are printed otherwise.
\<close>

definition digit_char :: "nat \<Rightarrow> 16 word" where
  "digit_char d = of_nat (48 + d)"

fun digits :: "nat \<Rightarrow> jsstring" where
  "digits n = (if n < 10 then [digit_char n] else digits (n div 10) @ [digit_char (n mod 10)])"

declare digits.simps [simp del]

definition Number_toString :: "int \<Rightarrow> jsstring" where
  "Number_toString i = (if i < 0 then 0x2D # digits (nat (- i)) else digits (nat i))"

text \<open>
  The values a request body can take, as far as \<open>sign\<close> looks at them: it tests the
  body for truthiness and serializes it with \<open>JSON.stringify\<close>. \<open>JNum\<close> stands for an
  integral number (below \<open>2\<^sup>5\<^sup>3\<close> in magnitude); an object is the list of its own
  enumerable properties in enumeration order.
\<close>

datatype jsvalue =
  JUndefined
| JNull
| JBool bool
| JNum int
| JStr jsstring
| JArr "jsvalue list"
| JObj "(jsstring \<times> jsvalue) list"

fun ToBoolean :: "jsvalue \<Rightarrow> bool" where
  "ToBoolean JUndefined = False"
| "ToBoolean JNull = False"
| "ToBoolean (JBool b) = b"
| "ToBoolean (JNum n) = (n \<noteq> 0)"
| "ToBoolean (JStr s) = (s \<noteq> [])"
| "ToBoolean (JArr xs) = True"
| "ToBoolean (JObj kvs) = True"

definition unicode_escape :: "16 word \<Rightarrow> jsstring" where
  "unicode_escape u =
     [0x5C, 0x75] @ map (\<lambda>i. hex_digit (unat (drop_bit i u AND 0xF))) [12, 8, 4, 0]"

definition quote_unit :: "16 word \<Rightarrow> jsstring" where
  "quote_unit u =
     (if u = 0x08 then [0x5C, 0x62]
      else if u = 0x09 then [0x5C, 0x74]
      else if u = 0x0A then [0x5C, 0x6E]
      else if u = 0x0C then [0x5C, 0x66]
      else if u = 0x0D then [0x5C, 0x72]
      else if u = 0x22 then [0x5C, 0x22]
      else if u = 0x5C then [0x5C, 0x5C]
      else if u < 0x20 \<or> is_high_surrogate u \<or> is_low_surrogate u then unicode_escape u
      else [u])"

fun quote_units :: "jsstring \<Rightarrow> jsstring" where
  "quote_units [] = []"
| "quote_units [u] = quote_unit u"
| "quote_units (u # v # vs) =
     (if is_high_surrogate u \<and> is_low_surrogate v then [u, v] @ quote_units vs
      else quote_unit u @ quote_units (v # vs))"

definition QuoteJSONString :: "jsstring \<Rightarrow> jsstring" where
  "QuoteJSONString s = [0x22] @ quote_units s @ [0x22]"

fun join_comma :: "jsstring list \<Rightarrow> jsstring" where
  "join_comma [] = []"
| "join_comma [x] = x"
| "join_comma (x # y # ys) = x @ [0x2C] @ join_comma (y # ys)"

text \<open>
  \<open>JSON.stringify\<close>: \<open>None\<close> is the result \<open>undefined\<close>. An array element without
  JSON text is written \<open>null\<close>; an object property without JSON text is left out.
\<close>

fun JSON_stringify :: "jsvalue \<Rightarrow> jsstring option" where
  "JSON_stringify JUndefined = None"
| "JSON_stringify JNull = Some (js ''null'')"
| "JSON_stringify (JBool b) = Some (if b then js ''true'' else js ''false'')"
| "JSON_stringify (JNum n) = Some (Number_toString n)"
| "JSON_stringify (JStr s) = Some (QuoteJSONString s)"
| "JSON_stringify (JArr xs) =
     Some ([0x5B] @
       join_comma (map (\<lambda>x. case JSON_stringify x of None \<Rightarrow> js ''null'' | Some t \<Rightarrow> t) xs)
       @ [0x5D])"
| "JSON_stringify (JObj kvs) =
     Some ([0x7B] @
       join_comma (concat (map (\<lambda>(k, v). case JSON_stringify v of None \<Rightarrow> []
                                          | Some t \<Rightarrow> [QuoteJSONString k @ [0x3A] @ t]) kvs))
       @ [0x7D])"

text \<open>A template literal \<open>`${x}`\<close> turns \<open>undefined\<close> into the text \<open>undefined\<close>.\<close>

definition interpolate :: "jsstring option \<Rightarrow> jsstring" where
  "interpolate x = (case x of None \<Rightarrow> js ''undefined'' | Some t \<Rightarrow> t)"

section \<open>The request signer \<open>RequestSigner\<close>\<close>

text \<open>
  \<^verbatim>\<open>
  export class RequestSigner {
    private signingKey: Buffer;

    constructor(licenseKey: string) {
      const hmac = crypto.createHmac('sha256', 'truthlinked-request-signing-v1');
      hmac.update(licenseKey);
      this.signingKey = hmac.digest();
    }

    sign(method: string, path: string, body?: any): { timestamp: string; signature: string } {
      const timestamp = Math.floor(Date.now() / 1000).toString();
      const bodyStr = body ? JSON.stringify(body) : '';
      const message = `${method}\n${path}\n${timestamp}\n${bodyStr}`;
      const hmac = crypto.createHmac('sha256', this.signingKey);
      hmac.update(message);
      const signature = hmac.digest('base64');
      return { timestamp, signature };
    }

    verify(method: string, path: string, body: string, signature: string,
           timestamp: string): boolean {
      const message = `${method}\n${path}\n${timestamp}\n${body}`;
      const hmac = crypto.createHmac('sha256', this.signingKey);
      hmac.update(message);
      const expected = hmac.digest('base64');
      return crypto.timingSafeEqual(
        Buffer.from(signature, 'base64'),
        Buffer.from(expected, 'base64')
      );
    }

    destroy(): void {
      this.signingKey.fill(0);
    }
  }
  \<close>
  The clock is an input of the model: \<open>now\<close> is the value of \<open>Date.now()\<close>, an integral
  number of milliseconds. String keys and messages reach the keyed hash as their UTF-8
  bytes.
\<close>

record RequestSigner =
  signingKey :: buffer

record signed =
  timestamp :: jsstring
  signature :: jsstring

definition RequestSigner_new :: "jsstring \<Rightarrow> RequestSigner" where
  "RequestSigner_new licenseKey =
     \<lparr>signingKey = hmac_sha256 (utf8 (js ''truthlinked-request-signing-v1'')) (utf8 licenseKey)\<rparr>"

definition sign :: "int \<Rightarrow> RequestSigner \<Rightarrow> jsstring \<Rightarrow> jsstring \<Rightarrow> jsvalue \<Rightarrow> signed" where
  "sign now this method path body =
     (let timestamp = Number_toString (now div 1000);
          bodyStr = (if ToBoolean body then JSON_stringify body else Some []);
          message = method @ [0x0A] @ path @ [0x0A] @ timestamp @ [0x0A] @ interpolate bodyStr;
          signature = base64_encode (hmac_sha256 (signingKey this) (utf8 message))
      in \<lparr>timestamp = timestamp, signature = signature\<rparr>)"

definition verify ::
  "RequestSigner \<Rightarrow> jsstring \<Rightarrow> jsstring \<Rightarrow> jsstring \<Rightarrow> jsstring \<Rightarrow> jsstring \<Rightarrow> error + bool"
where
  "verify this method path body signature' timestamp' =
     (let message = method @ [0x0A] @ path @ [0x0A] @ timestamp' @ [0x0A] @ body;
          expected = base64_encode (hmac_sha256 (signingKey this) (utf8 message))
      in timingSafeEqual (Buffer_from_base64 signature') (Buffer_from_base64 expected))"

definition RequestSigner_destroy :: "RequestSigner \<Rightarrow> RequestSigner" where
  "RequestSigner_destroy this = this\<lparr>signingKey := replicate (length (signingKey this)) 0\<rparr>"

text \<open>
  The locals \<open>timestamp\<close>, \<open>bodyStr\<close> and \<open>message\<close> of \<open>sign\<close>, and the local
  \<open>message\<close> of \<open>verify\<close>, by name: they are what the statements about the hashed
  message speak of.
\<close>

definition sign_timestamp :: "int \<Rightarrow> jsstring" where
  "sign_timestamp now = Number_toString (now div 1000)"

definition sign_bodyStr :: "jsvalue \<Rightarrow> jsstring option" where
  "sign_bodyStr body = (if ToBoolean body then JSON_stringify body else Some [])"

definition sign_message :: "int \<Rightarrow> jsstring \<Rightarrow> jsstring \<Rightarrow> jsvalue \<Rightarrow> jsstring" where
  "sign_message now method path body =
     method @ [0x0A] @ path @ [0x0A] @ sign_timestamp now @ [0x0A]
       @ interpolate (sign_bodyStr body)"

definition verify_message :: "jsstring \<Rightarrow> jsstring \<Rightarrow> jsstring \<Rightarrow> jsstring \<Rightarrow> jsstring" where
  "verify_message method path body timestamp' =
     method @ [0x0A] @ path @ [0x0A] @ timestamp' @ [0x0A] @ body"

section \<open>The content hash \<open>sha256\<close>\<close>

text \<open>
  \<^verbatim>\<open>
  export function sha256(data: string | Buffer): string {
    return crypto.createHash('sha256').update(data).digest('hex');
  }
  \<close>
  The model takes the string form of the argument.
\<close>

definition sha256 :: "jsstring \<Rightarrow> jsstring" where
  "sha256 data = hex_encode (sha256_bytes (utf8 data))"

section \<open>The canonical message as the specification words it\<close>

text \<open>
  The specification's canonical message is
  \<open>UPPERCASE(method) + "\n" + path + "\n" + decimal(timestamp) + "\n" + body_or_empty\<close>.
  Upper-casing is written out for the letters \<open>a\<close> to \<open>z\<close>, of which the names of
  HTTP methods consist.
\<close>

definition upper_unit :: "16 word \<Rightarrow> 16 word" where
  "upper_unit u = (if 0x61 \<le> u \<and> u \<le> 0x7A then u - 0x20 else u)"

definition UPPERCASE :: "jsstring \<Rightarrow> jsstring" where
  "UPPERCASE s = map upper_unit s"

definition spec_canonical_message :: "jsstring \<Rightarrow> jsstring \<Rightarrow> int \<Rightarrow> jsstring \<Rightarrow> jsstring" where
  "spec_canonical_message method path ts body_or_empty =
     UPPERCASE method @ [0x0A] @ path @ [0x0A] @ Number_toString ts @ [0x0A] @ body_or_empty"

section \<open>Facts about the platform functions\<close>

lemma length_sha256_bytes: "length (sha256_bytes m) = 32"
  by (simp add: sha256_bytes_def digest_bytes_def be_bytes32_def Let_def split: prod.splits)

lemma length_hmac_sha256: "length (hmac_sha256 k m) = 32"
  by (simp add: hmac_sha256_def Let_def length_sha256_bytes)

lemma byte_bound: "unat (a::byte) < 256"
  using unsigned_less [of a, where 'a = nat] by simp

lemma unat_of_nat_16: "n < 65536 \<Longrightarrow> unat (of_nat n :: 16 word) = n"
  by (simp add: unat_of_nat)

lemma unb64code_b64code: "i < 64 \<Longrightarrow> unb64code (b64code i) = Some i"
  unfolding unb64code_def b64code_def by (simp split: if_splits) arith

lemma b64code_bound: "b64code i < 65536"
  unfolding b64code_def by (simp split: if_splits) arith

lemma b64code_byte: "b64code i < 256"
  unfolding b64code_def by (simp split: if_splits) arith

lemma low_byte_b64char: "low_byte (b64char i) = b64code i"
  using b64code_byte [of i]
  by (simp add: low_byte_def b64char_def unat_of_nat_16 b64code_bound del: of_nat_add)

lemma unbase64_b64char: "i < 64 \<Longrightarrow> unbase64 (b64char i) = Some i"
  by (simp add: unbase64_def low_byte_b64char unb64code_b64code)

lemma b64char_not_pad: "i < 64 \<Longrightarrow> low_byte (b64char i) \<noteq> 61"
proof
  assume "i < 64" and "low_byte (b64char i) = 61"
  then have "unb64code 61 = Some i"
    using unbase64_b64char [of i] by (simp add: unbase64_def)
  then show False
    by (simp add: unb64code_def)
qed

lemma div_mod_join:
  fixes q x n :: nat
  assumes "x < n"
  shows "(q * n + x) div n = q" and "(q * n + x) mod n = x"
  using assms by simp_all

lemma nibble_bounds:
  fixes b :: byte
  shows "unat b div 16 < 16" and "unat b div 64 < 4" and "unat b div 4 < 64"
  using byte_bound [of b] by simp_all

lemma word8_of_unat_parts:
  fixes a b c :: byte
  shows "of_nat (unat a div 4 * 4 + (unat a mod 4 * 16 + unat b div 16) div 16) = a"
    and "of_nat ((unat a mod 4 * 16 + unat b div 16) mod 16 * 16
                  + (unat b mod 16 * 4 + unat c div 64) div 4) = b"
    and "of_nat ((unat b mod 16 * 4 + unat c div 64) mod 4 * 64 + unat c mod 64) = c"
    and "of_nat (unat a div 4 * 4 + (unat a mod 4 * 16) div 16) = a"
    and "of_nat ((unat a mod 4 * 16 + unat b div 16) mod 16 * 16
                  + (unat b mod 16 * 4) div 4) = b"
proof -
  have e1: "(unat a mod 4 * 16 + unat b div 16) div 16 = unat a mod 4"
    by (rule div_mod_join) (rule nibble_bounds)
  have e2: "(unat a mod 4 * 16 + unat b div 16) mod 16 = unat b div 16"
    by (rule div_mod_join) (rule nibble_bounds)
  have e3: "(unat b mod 16 * 4 + unat c div 64) div 4 = unat b mod 16"
    by (rule div_mod_join) (rule nibble_bounds)
  have e4: "(unat b mod 16 * 4 + unat c div 64) mod 4 = unat c div 64"
    by (rule div_mod_join) (rule nibble_bounds)
  have "unat a div 4 * 4 + (unat a mod 4 * 16 + unat b div 16) div 16 = unat a"
    unfolding e1 by simp
  then show "of_nat (unat a div 4 * 4 + (unat a mod 4 * 16 + unat b div 16) div 16) = a"
    by (simp del: of_nat_add of_nat_mult)
  have "(unat a mod 4 * 16 + unat b div 16) mod 16 * 16
          + (unat b mod 16 * 4 + unat c div 64) div 4 = unat b"
    unfolding e2 e3 by simp
  then show "of_nat ((unat a mod 4 * 16 + unat b div 16) mod 16 * 16
                  + (unat b mod 16 * 4 + unat c div 64) div 4) = b"
    by (simp del: of_nat_add of_nat_mult)
  have "(unat b mod 16 * 4 + unat c div 64) mod 4 * 64 + unat c mod 64 = unat c"
    unfolding e4 by simp
  then show "of_nat ((unat b mod 16 * 4 + unat c div 64) mod 4 * 64 + unat c mod 64) = c"
    by (simp del: of_nat_add of_nat_mult)
  have "unat a div 4 * 4 + (unat a mod 4 * 16) div 16 = unat a"
    by simp
  then show "of_nat (unat a div 4 * 4 + (unat a mod 4 * 16) div 16) = a"
    by (simp del: of_nat_add of_nat_mult)
  have "(unat a mod 4 * 16 + unat b div 16) mod 16 * 16 + (unat b mod 16 * 4) div 4 = unat b"
    unfolding e2 by simp
  then show "of_nat ((unat a mod 4 * 16 + unat b div 16) mod 16 * 16
                  + (unat b mod 16 * 4) div 4) = b"
    by (simp del: of_nat_add of_nat_mult)
qed

lemma sextet_bounds:
  fixes a b c :: byte
  shows "unat a div 4 < 64" "unat a mod 4 * 16 + unat b div 16 < 64"
    "unat b mod 16 * 4 + unat c div 64 < 64" "unat c mod 64 < 64"
    "unat a mod 4 * 16 < 64" "unat b mod 16 * 4 < 64"
proof -
  have a4: "unat a mod 4 < 4" and b16: "unat b mod 16 < 16"
    by simp_all
  show "unat a div 4 < 64" by (rule nibble_bounds)
  show "unat a mod 4 * 16 + unat b div 16 < 64"
    using a4 nibble_bounds(1) [of b] by linarith
  show "unat b mod 16 * 4 + unat c div 64 < 64"
    using b16 nibble_bounds(2) [of c] by linarith
  show "unat c mod 64 < 64" by simp
  show "unat a mod 4 * 16 < 64" using a4 by linarith
  show "unat b mod 16 * 4 < 64" using b16 by linarith
qed


lemma unbase64_sextets:
  "\<forall>s \<in> set ss. s < 64 \<Longrightarrow>
   List.map_filter unbase64 (takeWhile (\<lambda>c. low_byte c \<noteq> 61) (map b64char ss @ rest))
     = ss @ List.map_filter unbase64 (takeWhile (\<lambda>c. low_byte c \<noteq> 61) rest)"
  by (induction ss) (simp_all add: b64char_not_pad unbase64_b64char)

lemma unbase64_pad:
  "List.map_filter unbase64 (takeWhile (\<lambda>c. low_byte c \<noteq> 61) (0x3D # rest)) = []"
  by (simp add: low_byte_def)

lemma Buffer_from_base64_encode: "Buffer_from_base64 (base64_encode bs) = bs"
proof (induction bs rule: base64_encode.induct)
  case 1
  show ?case by (simp add: Buffer_from_base64_def)
next
  case (2 a)
  define s0 s1 where "s0 = unat a div 4" and "s1 = unat a mod 4 * 16"
  have enc: "base64_encode [a] = map b64char [s0, s1] @ [0x3D, 0x3D]"
    by (simp add: s0_def s1_def)
  have bnd: "\<forall>s \<in> set [s0, s1]. s < 64"
    by (simp add: s0_def s1_def sextet_bounds)
  have "Buffer_from_base64 (base64_encode [a]) = decode_sextets [s0, s1]"
    unfolding enc Buffer_from_base64_def unbase64_sextets [OF bnd] unbase64_pad by simp
  also have "\<dots> = [of_nat (s0 * 4 + s1 div 16)]"
    by simp
  also have "\<dots> = [a]"
    unfolding s0_def s1_def word8_of_unat_parts ..
  finally show ?case .
next
  case (3 a b)
  define s0 s1 s2 where "s0 = unat a div 4" and "s1 = unat a mod 4 * 16 + unat b div 16"
    and "s2 = unat b mod 16 * 4"
  have enc: "base64_encode [a, b] = map b64char [s0, s1, s2] @ [0x3D]"
    by (simp add: s0_def s1_def s2_def)
  have bnd: "\<forall>s \<in> set [s0, s1, s2]. s < 64"
    by (simp add: s0_def s1_def s2_def sextet_bounds)
  have "Buffer_from_base64 (base64_encode [a, b]) = decode_sextets [s0, s1, s2]"
    unfolding enc Buffer_from_base64_def unbase64_sextets [OF bnd] unbase64_pad by simp
  also have "\<dots> = [of_nat (s0 * 4 + s1 div 16), of_nat (s1 mod 16 * 16 + s2 div 4)]"
    by simp
  also have "\<dots> = [a, b]"
    unfolding s0_def s1_def s2_def word8_of_unat_parts ..
  finally show ?case .
next
  case (4 a b c r)
  define s0 s1 s2 s3 where "s0 = unat a div 4" and "s1 = unat a mod 4 * 16 + unat b div 16"
    and "s2 = unat b mod 16 * 4 + unat c div 64" and "s3 = unat c mod 64"
  have enc: "base64_encode (a # b # c # r) = map b64char [s0, s1, s2, s3] @ base64_encode r"
    by (simp add: s0_def s1_def s2_def s3_def)
  have bnd: "\<forall>s \<in> set [s0, s1, s2, s3]. s < 64"
    by (simp add: s0_def s1_def s2_def s3_def sextet_bounds)
  have "Buffer_from_base64 (base64_encode (a # b # c # r))
          = decode_sextets ([s0, s1, s2, s3] @
              List.map_filter unbase64 (takeWhile (\<lambda>c. low_byte c \<noteq> 61) (base64_encode r)))"
    unfolding enc Buffer_from_base64_def unbase64_sextets [OF bnd] ..
  also have "\<dots> = [of_nat (s0 * 4 + s1 div 16), of_nat (s1 mod 16 * 16 + s2 div 4),
                     of_nat (s2 mod 4 * 64 + s3)] @ Buffer_from_base64 (base64_encode r)"
    by (simp add: Buffer_from_base64_def)
  also have "\<dots> = [a, b, c] @ r"
    unfolding s0_def s1_def s2_def s3_def word8_of_unat_parts "4.IH" ..
  finally show ?case by simp
qed


text \<open>Only the low byte of a code unit counts: U+0141 decodes as \<open>A\<close> (0x41).\<close>

lemma Buffer_from_base64_low_byte:
  "Buffer_from_base64 [0x141, 0x141, 0x141, 0x141] = [0, 0, 0]"
  by (simp add: Buffer_from_base64_def unbase64_def unb64code_def low_byte_def)

lemma digit_char_unat: "d < 10 \<Longrightarrow> unat (digit_char d) = 48 + d"
  by (simp add: digit_char_def unat_of_nat_16 del: of_nat_add)

lemma digit_char_inj: "d < 10 \<Longrightarrow> e < 10 \<Longrightarrow> digit_char d = digit_char e \<Longrightarrow> d = e"
  by (metis digit_char_unat add_left_cancel)

lemma digit_char_not_minus: "d < 10 \<Longrightarrow> digit_char d \<noteq> 0x2D"
proof
  assume "d < 10" and "digit_char d = 0x2D"
  then have "unat (0x2D :: 16 word) = 48 + d"
    using digit_char_unat by metis
  then show False by simp
qed

lemma digits_nonempty: "digits n \<noteq> []" "[] \<noteq> digits n"
  by (subst digits.simps, simp)+

lemma hd_digits: "\<exists>d < 10. hd (digits n) = digit_char d"
proof (induction n rule: digits.induct)
  case (1 n)
  show ?case
  proof (cases "n < 10")
    case True
    then show ?thesis
      by (subst digits.simps) auto
  next
    case False
    then have "hd (digits n) = hd (digits (n div 10))"
      by (subst digits.simps) (simp add: digits_nonempty)
    with 1 False show ?thesis by simp
  qed
qed

lemma digits_inj: "digits n = digits m \<Longrightarrow> n = m"
proof (induction n arbitrary: m rule: digits.induct)
  case (1 n)
  show ?case
  proof (cases "n < 10")
    case n: True
    show ?thesis
    proof (cases "m < 10")
      case True
      with n "1.prems" show ?thesis
        by (simp add: digits.simps [of n] digits.simps [of m] digit_char_inj)
    next
      case False
      with n "1.prems" show ?thesis
        by (simp add: digits.simps [of n] digits.simps [of m] digits_nonempty)
    qed
  next
    case n: False
    show ?thesis
    proof (cases "m < 10")
      case True
      with n "1.prems" show ?thesis
        by (simp add: digits.simps [of n] digits.simps [of m] digits_nonempty)
    next
      case False
      with n "1.prems" have eq: "digits (n div 10) = digits (m div 10)"
        and last: "digit_char (n mod 10) = digit_char (m mod 10)"
        by (simp_all add: digits.simps [of n] digits.simps [of m])
      from "1.IH" [OF n eq] have d: "n div 10 = m div 10" .
      from last have r: "n mod 10 = m mod 10"
        by (rule digit_char_inj [rotated 2]) simp_all
      from d r show ?thesis
        by (metis div_mult_mod_eq)
    qed
  qed
qed

lemma Number_toString_inj: "Number_toString i = Number_toString j \<Longrightarrow> i = j"
proof -
  assume eq: "Number_toString i = Number_toString j"
  have no_minus: "0x2D # xs \<noteq> digits n" for xs n
  proof
    assume "0x2D # xs = digits n"
    then have "hd (digits n) = 0x2D"
      by (metis list.sel(1))
    then show False
      using hd_digits [of n] digit_char_not_minus by metis
  qed
  consider "i < 0" "j < 0" | "i < 0" "\<not> j < 0" | "\<not> i < 0" "j < 0" | "\<not> i < 0" "\<not> j < 0"
    by blast
  then show "i = j"
  proof cases
    case 1
    with eq have "nat (- i) = nat (- j)"
      by (simp add: Number_toString_def digits_inj)
    with 1 show ?thesis by linarith
  next
    case 2
    with eq no_minus show ?thesis
      by (simp add: Number_toString_def)
  next
    case 3
    with eq no_minus [of "digits (nat (- j))" "nat i"] show ?thesis
      by (simp add: Number_toString_def)
  next
    case 4
    with eq have "nat i = nat j"
      by (simp add: Number_toString_def digits_inj)
    with 4 show ?thesis by linarith
  qed
qed











text \<open>
  The model computes: the digest of \<open>test\<close> is the one the repository's own test of
  \<open>sha256\<close> expects, and two keyed hashes that the signer needs below evaluate to the
  values that any HMAC-SHA256 implementation gives.
\<close>

lemma utf8_test: "utf8 (js ''test'') = [0x74, 0x65, 0x73, 0x74]"
  by (simp add: js_def utf8_unit_def is_high_surrogate_def is_low_surrogate_def)

lemma sha256_bytes_test:
  "sha256_bytes [0x74, 0x65, 0x73, 0x74] =
     [0x9f, 0x86, 0xd0, 0x81, 0x88, 0x4c, 0x7d, 0x65, 0x9a, 0x2f, 0xea, 0xa0,
     0xc5, 0x5a, 0xd0, 0x15, 0xa3, 0xbf, 0x4f, 0x1b, 0x2b, 0x0b, 0x82, 0x2c,
     0xd1, 0x5d, 0x6c, 0x15, 0xb0, 0xf0, 0x0a, 0x08]"
  by code_simp

lemma sha256_test_vector:
  "sha256 (js ''test'') = js ''9f86d081884c7d659a2feaa0c55ad015a3bf4f1b2b0b822cd15d6c15b0f00a08''"
  unfolding sha256_def utf8_test sha256_bytes_test
  by (simp add: hex_encode_def hex_digit_def js_def)

lemma utf8_label:
  "utf8 (js ''truthlinked-request-signing-v1'') =
     [0x74, 0x72, 0x75, 0x74, 0x68, 0x6c, 0x69, 0x6e, 0x6b, 0x65, 0x64, 0x2d,
     0x72, 0x65, 0x71, 0x75, 0x65, 0x73, 0x74, 0x2d, 0x73, 0x69, 0x67, 0x6e,
     0x69, 0x6e, 0x67, 0x2d, 0x76, 0x31]"
  by (simp add: js_def utf8_unit_def is_high_surrogate_def is_low_surrogate_def)

lemma hmac_label_empty:
  "hmac_sha256
     [0x74, 0x72, 0x75, 0x74, 0x68, 0x6c, 0x69, 0x6e, 0x6b, 0x65, 0x64, 0x2d,
     0x72, 0x65, 0x71, 0x75, 0x65, 0x73, 0x74, 0x2d, 0x73, 0x69, 0x67, 0x6e,
     0x69, 0x6e, 0x67, 0x2d, 0x76, 0x31]
     [] =
     [0x61, 0xdd, 0xa1, 0x11, 0x45, 0xaa, 0x68, 0xfd, 0xa6, 0xd6, 0x8b, 0xea,
     0xf2, 0x52, 0x75, 0x52, 0xd8, 0x8e, 0x36, 0x45, 0x91, 0xed, 0x99, 0xaf,
     0xa5, 0x67, 0x69, 0x86, 0x80, 0x03, 0x4a, 0xa2]"
  by code_simp

lemma utf8_get_test:
  "utf8 (js ''GET'' @ [0x0A] @ js ''/test'' @ [0x0A] @ js ''1700000000'' @ [0x0A]) =
     [0x47, 0x45, 0x54, 0x0a, 0x2f, 0x74, 0x65, 0x73, 0x74, 0x0a, 0x31, 0x37,
     0x30, 0x30, 0x30, 0x30, 0x30, 0x30, 0x30, 0x30, 0x0a]"
  by (simp add: js_def utf8_unit_def is_high_surrogate_def is_low_surrogate_def)

lemma hmac_zero_key:
  "hmac_sha256
     [0, 0, 0, 0, 0, 0, 0, 0, 0, 0, 0, 0, 0, 0, 0, 0,
      0, 0, 0, 0, 0, 0, 0, 0, 0, 0, 0, 0, 0, 0, 0, 0]
     [0x47, 0x45, 0x54, 0x0a, 0x2f, 0x74, 0x65, 0x73, 0x74, 0x0a, 0x31, 0x37,
     0x30, 0x30, 0x30, 0x30, 0x30, 0x30, 0x30, 0x30, 0x0a] =
     [0x74, 0x95, 0xe1, 0xc5, 0xcd, 0xe2, 0xf6, 0x35, 0xbc, 0x7d, 0x7a, 0x20,
     0x24, 0xdd, 0x1b, 0x9b, 0xa4, 0x81, 0xd3, 0xae, 0xc0, 0x29, 0xea, 0x2f,
     0x00, 0x92, 0xa6, 0xd4, 0x69, 0xde, 0x75, 0x4b]"
  by code_simp

lemma base64_zero_key_digest:
  "base64_encode
     [0x74, 0x95, 0xe1, 0xc5, 0xcd, 0xe2, 0xf6, 0x35, 0xbc, 0x7d, 0x7a, 0x20,
     0x24, 0xdd, 0x1b, 0x9b, 0xa4, 0x81, 0xd3, 0xae, 0xc0, 0x29, 0xea, 0x2f,
     0x00, 0x92, 0xa6, 0xd4, 0x69, 0xde, 0x75, 0x4b] =
     js ''dJXhxc3i9jW8fXogJN0bm6SB067AKeovAJKm1GnedUs=''"
  by (simp add: b64char_def b64code_def js_def)

lemma replicate_32_zero:
  "replicate 32 (0 :: byte) =
     [0, 0, 0, 0, 0, 0, 0, 0, 0, 0, 0, 0, 0, 0, 0, 0,
      0, 0, 0, 0, 0, 0, 0, 0, 0, 0, 0, 0, 0, 0, 0, 0]"
  by (simp add: eval_nat_numeral)

section \<open>Properties of the comparator\<close>

lemma CRYPTO_memcmp_acc:
  "length a = length b \<Longrightarrow>
   (foldl (\<lambda>acc (x, y). acc OR (x XOR y)) (c::byte) (zip a b) = 0) = (c = 0 \<and> a = b)"
proof (induction a b arbitrary: c rule: list_induct2)
  case Nil
  show ?case by simp
next
  case (Cons x xs y ys)
  have "(x XOR y = 0) = (x = y)"
    by (metis bit.xor_left_self xor.right_neutral)
  with Cons.IH [of "c OR (x XOR y)"] show ?case
    by (auto simp: or_eq_0_iff)
qed

lemma CRYPTO_memcmp_zero_iff:
  "length a = length b \<Longrightarrow> (CRYPTO_memcmp a b = 0) = (a = b)"
  by (simp add: CRYPTO_memcmp_def CRYPTO_memcmp_acc)

lemma timingSafeEqual_same_length:
  "length a = length b \<Longrightarrow> timingSafeEqual a b = Inr (a = b)"
  by (simp add: timingSafeEqual_def CRYPTO_memcmp_zero_iff)

lemma timingSafeEqual_refl: "timingSafeEqual a a = Inr True"
  by (simp add: timingSafeEqual_same_length)

lemma timingSafeEqual_different_length:
  "length a \<noteq> length b \<Longrightarrow> timingSafeEqual a b = Inl ERR_CRYPTO_TIMING_SAFE_EQUAL_LENGTH"
  by (simp add: timingSafeEqual_def)

lemma timingSafeEqual_commute: "timingSafeEqual a b = timingSafeEqual b a"
proof (cases "length a = length b")
  case True
  then show ?thesis
    by (auto simp: timingSafeEqual_same_length)
next
  case False
  then show ?thesis
    by (simp add: timingSafeEqual_def)
qed

text \<open>The three cases that the repository's tests of \<open>constantTimeEqual\<close> check.\<close>

lemma constantTimeEqual_repository_tests:
  "constantTimeEqual (js ''test'') (js ''test'') = Inr True
   \<and> constantTimeEqual (js ''test'') (js ''fail'') = Inr False
   \<and> constantTimeEqual (js ''test'') (js ''testing'') = Inr False"
  by (simp add: constantTimeEqual_def timingSafeEqual_same_length js_def utf8_unit_def
      is_high_surrogate_def is_low_surrogate_def)

text \<open>
  Claim C8. \<open>constantTimeEqual\<close> is reflexive: comparing a string with itself returns
  true. It is symmetric: both argument orders have the same outcome. It returns false
  whenever the two strings have different lengths, whatever they contain.
\<close>

theorem constantTimeEqual_refl_sym_length:
  "constantTimeEqual a a = Inr True
   \<and> constantTimeEqual a b = constantTimeEqual b a
   \<and> (length a \<noteq> length b \<longrightarrow> constantTimeEqual a b = Inr False)"
proof (intro conjI impI)
  show "constantTimeEqual a a = Inr True"
    by (simp add: constantTimeEqual_def timingSafeEqual_refl)
  show "constantTimeEqual a b = constantTimeEqual b a"
    using timingSafeEqual_commute [of "utf8 a" "utf8 b"]
    by (auto simp: constantTimeEqual_def)
  show "constantTimeEqual a b = Inr False" if "length a \<noteq> length b"
    using that by (simp add: constantTimeEqual_def)
qed

theorem constantTimeEqual_refl_sym_length_witness:
  "length (js ''test'') \<noteq> length (js ''testing'')
   \<and> constantTimeEqual (js ''test'') (js ''test'') = Inr True
   \<and> constantTimeEqual (js ''test'') (js ''testing'')
       = constantTimeEqual (js ''testing'') (js ''test'')
   \<and> constantTimeEqual (js ''test'') (js ''testing'') = Inr False"
proof -
  have h: "length (js ''test'') \<noteq> length (js ''testing'')"
    by (simp add: js_def)
  show ?thesis
    using h constantTimeEqual_refl_sym_length [of "js ''test''" "js ''testing''"]
    by blast
qed

text \<open>
  Claim C10. \<open>constantTimeEqual\<close> is not total over arbitrary strings: whenever two
  strings have the same length in code units but UTF-8 encodings of different byte
  length (for example, when only one of them holds a multi-byte character), the
  underlying timing-safe comparison throws a fault instead of returning false.
\<close>

theorem constantTimeEqual_throws:
  "length a = length b \<Longrightarrow> length (utf8 a) \<noteq> length (utf8 b) \<Longrightarrow>
   constantTimeEqual a b = Inl ERR_CRYPTO_TIMING_SAFE_EQUAL_LENGTH"
  by (simp add: constantTimeEqual_def timingSafeEqual_def)

theorem constantTimeEqual_throws_witness:
  "[0xE9] \<noteq> js ''e''
   \<and> length [0xE9 :: 16 word] = length (js ''e'')
   \<and> length (utf8 [0xE9]) \<noteq> length (utf8 (js ''e''))
   \<and> constantTimeEqual [0xE9] (js ''e'') = Inl ERR_CRYPTO_TIMING_SAFE_EQUAL_LENGTH"
proof -
  have h1: "length [0xE9 :: 16 word] = length (js ''e'')"
    by (simp add: js_def)
  have h2: "length (utf8 [0xE9]) \<noteq> length (utf8 (js ''e''))"
    by (simp add: js_def utf8_unit_def)
  have h3: "[0xE9] \<noteq> js ''e''"
    by (simp add: js_def)
  show ?thesis
    using h1 h2 h3 constantTimeEqual_throws [OF h1 h2] by blast
qed

section \<open>Properties of the credential handle\<close>

text \<open>The two cases that the repository's tests of \<open>redacted\<close> check.\<close>

lemma redacted_repository_tests:
  "redacted (SecureLicenseKey_new (js ''tl_free_secret123456789'')) = js ''tl_...789''
   \<and> redacted (SecureLicenseKey_new (js ''short'')) = js ''***''"
  by (simp add: redacted_def SecureLicenseKey_new_def slice_def js_def)

text \<open>
  Claim C6. After \<open>destroy()\<close>, \<open>asString()\<close> returns a placeholder of the same length
  as the original secret; the placeholder is never the original secret, unless the
  secret was the placeholder itself; a second \<open>destroy()\<close> changes nothing (and, like
  the first, cannot throw: the operations are total).
\<close>

theorem SecureLicenseKey_destroy_placeholder:
  "asString (SecureLicenseKey_destroy (SecureLicenseKey_new k)) = replicate (length k) 0
   \<and> length (asString (SecureLicenseKey_destroy (SecureLicenseKey_new k))) = length k
   \<and> (k \<noteq> replicate (length k) 0 \<longrightarrow>
        asString (SecureLicenseKey_destroy (SecureLicenseKey_new k)) \<noteq> k)
   \<and> SecureLicenseKey_destroy (SecureLicenseKey_destroy h) = SecureLicenseKey_destroy h
   \<and> asString (SecureLicenseKey_destroy (SecureLicenseKey_destroy h))
       = asString (SecureLicenseKey_destroy h)"
  by (simp add: asString_def SecureLicenseKey_destroy_def SecureLicenseKey_new_def)

theorem SecureLicenseKey_destroy_placeholder_witness:
  "js ''test_key'' \<noteq> replicate (length (js ''test_key'')) 0
   \<and> asString (SecureLicenseKey_destroy (SecureLicenseKey_new (js ''test_key'')))
       = replicate 8 0
   \<and> asString (SecureLicenseKey_destroy (SecureLicenseKey_new (js ''test_key'')))
       \<noteq> js ''test_key''
   \<and> asString (SecureLicenseKey_destroy (SecureLicenseKey_destroy
         (SecureLicenseKey_new (js ''test_key''))))
       = replicate 8 0"
proof -
  have j: "js ''test_key'' = [0x74, 0x65, 0x73, 0x74, 0x5F, 0x6B, 0x65, 0x79]"
    by (simp add: js_def)
  have r: "replicate 8 (0::16 word) = [0, 0, 0, 0, 0, 0, 0, 0]"
    by (simp add: eval_nat_numeral)
  have l: "length (js ''test_key'') = 8"
    by (simp add: j)
  have h: "js ''test_key'' \<noteq> replicate (length (js ''test_key'')) 0"
    unfolding l r by (simp add: j)
  show ?thesis
    using h l SecureLicenseKey_destroy_placeholder
      [of "js ''test_key''" "SecureLicenseKey_new (js ''test_key'')"]
    by simp
qed

section \<open>Properties of the request signer\<close>

lemma sign_unfold:
  "sign now this method path body =
     \<lparr>timestamp = sign_timestamp now,
      signature = base64_encode
        (hmac_sha256 (signingKey this) (utf8 (sign_message now method path body)))\<rparr>"
  by (simp add: sign_def Let_def sign_timestamp_def sign_bodyStr_def sign_message_def)

lemma verify_unfold:
  "verify this method path body sig ts =
     timingSafeEqual (Buffer_from_base64 sig)
       (Buffer_from_base64 (base64_encode
          (hmac_sha256 (signingKey this) (utf8 (verify_message method path body ts)))))"
  by (simp add: verify_def Let_def verify_message_def)

lemma verify_outcome:
  "verify this method path body sig ts =
     (if length (Buffer_from_base64 sig) = 32
      then Inr (Buffer_from_base64 sig
                 = hmac_sha256 (signingKey this) (utf8 (verify_message method path body ts)))
      else Inl ERR_CRYPTO_TIMING_SAFE_EQUAL_LENGTH)"
  by (simp add: verify_unfold Buffer_from_base64_encode timingSafeEqual_def
      CRYPTO_memcmp_zero_iff length_hmac_sha256)

lemma verify_message_of_sign:
  "verify_message method path (interpolate (sign_bodyStr body)) (sign_timestamp now)
     = sign_message now method path body"
  by (simp add: verify_message_def sign_message_def)

lemma digits_1700000000: "digits 1700000000 = js ''1700000000''"
  by (simp add: digits.simps digit_char_def js_def)

lemma RequestSigner_destroy_zero:
  "signingKey (RequestSigner_destroy (RequestSigner_new k)) = replicate 32 0"
  by (simp add: RequestSigner_destroy_def RequestSigner_new_def length_hmac_sha256)

lemma RequestSigner_destroy_idem:
  "RequestSigner_destroy (RequestSigner_destroy this) = RequestSigner_destroy this"
  by (simp add: RequestSigner_destroy_def)





text \<open>
  Claim C1. Round trip: whatever the method, path and body, and whatever the clock shows,
  \<open>verify\<close> on the same signer, given the same method and path, the body text that
  \<open>sign\<close> put into the message, and the signature and timestamp that \<open>sign\<close>
  returned, yields true.
\<close>

theorem sign_verify_roundtrip:
  "verify this method path (interpolate (sign_bodyStr body))
     (signature (sign now this method path body))
     (timestamp (sign now this method path body)) = Inr True"
  by (simp add: verify_outcome sign_unfold Buffer_from_base64_encode length_hmac_sha256
      verify_message_of_sign)

theorem sign_verify_roundtrip_witness:
  "verify (RequestSigner_new (js ''test_key'')) (js ''GET'') (js ''/test'') []
     (signature (sign 1700000000123 (RequestSigner_new (js ''test_key''))
        (js ''GET'') (js ''/test'') JNull))
     (timestamp (sign 1700000000123 (RequestSigner_new (js ''test_key''))
        (js ''GET'') (js ''/test'') JNull)) = Inr True"
proof -
  have b: "interpolate (sign_bodyStr JNull) = []"
    by (simp add: sign_bodyStr_def interpolate_def)
  show ?thesis
    using sign_verify_roundtrip [of "RequestSigner_new (js ''test_key'')"
        "js ''GET''" "js ''/test''" JNull 1700000000123]
    unfolding b .
qed

text \<open>
  Claim C2. \<open>verify\<close> is meant to answer false, without a fault, on a signature of the
  wrong length. On the code it does not: a supplied signature that decodes to a number of
  bytes other than 32, such as the empty string or \<open>AAAA\<close>, makes
  \<open>crypto.timingSafeEqual\<close> throw.
\<close>

theorem verify_throws_on_length_mismatch:
  "verify (RequestSigner_new (js ''test_key'')) (js ''GET'') (js ''/test'') [] []
     (js ''1700000000'') = Inl ERR_CRYPTO_TIMING_SAFE_EQUAL_LENGTH
   \<and> verify (RequestSigner_new (js ''test_key'')) (js ''GET'') (js ''/test'') []
     (js ''AAAA'') (js ''1700000000'') = Inl ERR_CRYPTO_TIMING_SAFE_EQUAL_LENGTH"
proof -
  have e: "Buffer_from_base64 [] = []"
    by (simp add: Buffer_from_base64_def)
  have a: "Buffer_from_base64 (js ''AAAA'') = [0, 0, 0]"
    by (simp add: Buffer_from_base64_def js_def unbase64_def unb64code_def low_byte_def)
  show ?thesis
    by (simp add: verify_outcome e a)
qed

text \<open>
  Claim C3, as stated, fails at a lower-case method: \<open>sign\<close> puts \<open>get\<close> into the
  message as it is, where the specification's canonical message has \<open>GET\<close>.
\<close>

theorem sign_message_uppercase_counterexample:
  "signature (sign 1700000000123 (RequestSigner_new (js ''test_key'')) (js ''get'')
       (js ''/test'') JUndefined)
     = base64_encode (hmac_sha256 (signingKey (RequestSigner_new (js ''test_key'')))
         (utf8 (js ''get'' @ [0x0A] @ js ''/test'' @ [0x0A] @ js ''1700000000'' @ [0x0A])))
   \<and> sign_message 1700000000123 (js ''get'') (js ''/test'') JUndefined
     = js ''get'' @ [0x0A] @ js ''/test'' @ [0x0A] @ js ''1700000000'' @ [0x0A]
   \<and> spec_canonical_message (js ''get'') (js ''/test'') 1700000000 []
     = js ''GET'' @ [0x0A] @ js ''/test'' @ [0x0A] @ js ''1700000000'' @ [0x0A]
   \<and> sign_message 1700000000123 (js ''get'') (js ''/test'') JUndefined
     \<noteq> spec_canonical_message (js ''get'') (js ''/test'') 1700000000 []"
proof -
  have t: "sign_timestamp 1700000000123 = js ''1700000000''"
    by (simp add: sign_timestamp_def Number_toString_def digits_1700000000)
  have u: "UPPERCASE (js ''get'') = js ''GET''"
    by (simp add: UPPERCASE_def upper_unit_def js_def)
  have n: "Number_toString 1700000000 = js ''1700000000''"
    by (simp add: Number_toString_def digits_1700000000)
  have g: "js ''get'' \<noteq> js ''GET''"
    by (simp add: js_def)
  have 1: "sign_message 1700000000123 (js ''get'') (js ''/test'') JUndefined
     = js ''get'' @ [0x0A] @ js ''/test'' @ [0x0A] @ js ''1700000000'' @ [0x0A]"
    by (simp add: sign_message_def t sign_bodyStr_def interpolate_def)
  have 2: "spec_canonical_message (js ''get'') (js ''/test'') 1700000000 []
     = js ''GET'' @ [0x0A] @ js ''/test'' @ [0x0A] @ js ''1700000000'' @ [0x0A]"
    by (simp add: spec_canonical_message_def u n)
  have 3: "js ''get'' @ [0x0A] @ js ''/test'' @ [0x0A] @ js ''1700000000'' @ [0x0A]
     \<noteq> js ''GET'' @ [0x0A] @ js ''/test'' @ [0x0A] @ js ''1700000000'' @ [0x0A]"
    by (simp add: js_def)
  have 0: "signature (sign 1700000000123 (RequestSigner_new (js ''test_key'')) (js ''get'')
       (js ''/test'') JUndefined)
     = base64_encode (hmac_sha256 (signingKey (RequestSigner_new (js ''test_key'')))
         (utf8 (js ''get'' @ [0x0A] @ js ''/test'' @ [0x0A] @ js ''1700000000'' @ [0x0A])))"
    unfolding sign_unfold 1 by simp
  show ?thesis
    unfolding 0 1 2 using 3 by simp
qed

text \<open>
  Claim C3, amended. The message that \<open>sign\<close> feeds to the keyed hash is the method
  exactly as the caller passed it, then the path, then the decimal timestamp, then the
  body-or-empty text, joined by newline characters. \<open>sign\<close> converts no letter case:
  its message is the specification's canonical message exactly when the method passed is
  already in upper case.
\<close>

theorem sign_message_method_verbatim:
  "signature (sign now this method path body)
     = base64_encode (hmac_sha256 (signingKey this)
         (utf8 (method @ [0x0A] @ path @ [0x0A] @ Number_toString (now div 1000) @ [0x0A]
                  @ interpolate (sign_bodyStr body))))
   \<and> ((sign_message now method path body
         = spec_canonical_message method path (now div 1000) (interpolate (sign_bodyStr body)))
        = (UPPERCASE method = method))"
  by (auto simp: sign_unfold sign_message_def spec_canonical_message_def sign_timestamp_def)

theorem sign_message_method_verbatim_witness:
  "UPPERCASE (js ''GET'') = js ''GET''
   \<and> sign_message 1700000000123 (js ''GET'') (js ''/test'') JUndefined
       = spec_canonical_message (js ''GET'') (js ''/test'') (1700000000123 div 1000)
           (interpolate (sign_bodyStr JUndefined))
   \<and> UPPERCASE (js ''get'') \<noteq> js ''get''
   \<and> sign_message 1700000000123 (js ''get'') (js ''/test'') JUndefined
       \<noteq> spec_canonical_message (js ''get'') (js ''/test'') (1700000000123 div 1000)
           (interpolate (sign_bodyStr JUndefined))"
proof -
  have u: "UPPERCASE (js ''GET'') = js ''GET''"
    by (simp add: UPPERCASE_def upper_unit_def js_def)
  have l: "UPPERCASE (js ''get'') \<noteq> js ''get''"
    by (simp add: UPPERCASE_def upper_unit_def js_def)
  show ?thesis
    using u l
      sign_message_method_verbatim [of 1700000000123 "RequestSigner_new (js ''test_key'')"
        "js ''GET''" "js ''/test''" JUndefined]
      sign_message_method_verbatim [of 1700000000123 "RequestSigner_new (js ''test_key'')"
        "js ''get''" "js ''/test''" JUndefined]
    by blast
qed

text \<open>
  Claim C4, as stated, fails: \<open>sign\<close> has no timestamp parameter. A timestamp handed
  over in third position is taken for the body, and the timestamp returned is the
  clock's; two calls with the same arguments a second apart return different timestamps.
\<close>

theorem sign_timestamp_argument_counterexample:
  "timestamp (sign 5000 (RequestSigner_new (js ''test_key'')) (js ''GET'') (js ''/test'')
      (JNum 1700000000)) = js ''5''
   \<and> timestamp (sign 5000 (RequestSigner_new (js ''test_key'')) (js ''GET'') (js ''/test'')
      (JNum 1700000000)) \<noteq> js ''1700000000''
   \<and> sign_message 5000 (js ''GET'') (js ''/test'') (JNum 1700000000)
      = js ''GET'' @ [0x0A] @ js ''/test'' @ [0x0A] @ js ''5'' @ [0x0A] @ js ''1700000000''
   \<and> timestamp (sign 5000 (RequestSigner_new (js ''test_key'')) (js ''GET'') (js ''/test'')
      JUndefined)
      \<noteq> timestamp (sign 6000 (RequestSigner_new (js ''test_key'')) (js ''GET'') (js ''/test'')
      JUndefined)"
proof -
  have t5: "sign_timestamp 5000 = js ''5''"
    by (simp add: sign_timestamp_def Number_toString_def digits.simps digit_char_def js_def)
  have t6: "sign_timestamp 6000 = js ''6''"
    by (simp add: sign_timestamp_def Number_toString_def digits.simps digit_char_def js_def)
  have ne: "js ''5'' \<noteq> js ''1700000000''" "js ''5'' \<noteq> js ''6''"
    by (simp_all add: js_def)
  have b: "interpolate (sign_bodyStr (JNum 1700000000)) = js ''1700000000''"
    by (simp add: sign_bodyStr_def interpolate_def Number_toString_def digits_1700000000)
  show ?thesis
    using ne by (simp add: sign_unfold sign_message_def t5 t6 b)
qed

text \<open>
  Claim C4, amended. \<open>sign\<close> takes no timestamp argument: the timestamp it returns and
  signs is always the current time in whole seconds since the epoch, in decimal. Two
  calls with the same method, path, body and key return identical results when the clock
  shows the same second, and different timestamps otherwise. The signature is computed
  over the message that carries the returned timestamp.
\<close>

theorem sign_timestamp_from_clock:
  "timestamp (sign now this method path body) = Number_toString (now div 1000)
   \<and> (now div 1000 = now' div 1000 \<longrightarrow>
        sign now this method path body = sign now' this method path body)
   \<and> (now div 1000 \<noteq> now' div 1000 \<longrightarrow>
        timestamp (sign now this method path body)
          \<noteq> timestamp (sign now' this method path body))
   \<and> signature (sign now this method path body)
       = base64_encode (hmac_sha256 (signingKey this)
           (utf8 (method @ [0x0A] @ path @ [0x0A]
                    @ timestamp (sign now this method path body) @ [0x0A]
                    @ interpolate (sign_bodyStr body))))"
  by (auto simp: sign_unfold sign_message_def sign_timestamp_def dest: Number_toString_inj)

theorem sign_timestamp_from_clock_witness:
  "(1700000000123 :: int) div 1000 = 1700000000999 div 1000
   \<and> (1700000000123 :: int) div 1000 \<noteq> 1700000001000 div 1000
   \<and> timestamp (sign 1700000000123 (RequestSigner_new (js ''test_key'')) (js ''GET'')
         (js ''/test'') JUndefined) = Number_toString 1700000000
   \<and> sign 1700000000123 (RequestSigner_new (js ''test_key'')) (js ''GET'') (js ''/test'')
        JUndefined
       = sign 1700000000999 (RequestSigner_new (js ''test_key'')) (js ''GET'') (js ''/test'')
        JUndefined
   \<and> timestamp (sign 1700000000123 (RequestSigner_new (js ''test_key'')) (js ''GET'')
         (js ''/test'') JUndefined)
       \<noteq> timestamp (sign 1700000001000 (RequestSigner_new (js ''test_key'')) (js ''GET'')
         (js ''/test'') JUndefined)"
proof -
  have h1: "(1700000000123 :: int) div 1000 = 1700000000999 div 1000"
    by simp
  have h2: "(1700000000123 :: int) div 1000 \<noteq> 1700000001000 div 1000"
    by simp
  have h3: "(1700000000123 :: int) div 1000 = 1700000000"
    by simp
  show ?thesis
    using h1 h2 h3
      sign_timestamp_from_clock [of 1700000000123 "RequestSigner_new (js ''test_key'')"
        "js ''GET''" "js ''/test''" JUndefined 1700000000999]
      sign_timestamp_from_clock [of 1700000000123 "RequestSigner_new (js ''test_key'')"
        "js ''GET''" "js ''/test''" JUndefined 1700000001000]
    by metis
qed




text \<open>
  Claim C7, as stated, fails: from the empty credential both constructors return an
  object. The handle holds the empty string, and the signer holds the 32-byte key
  derived from the empty message.
\<close>

theorem empty_credential_counterexample:
  "asString (SecureLicenseKey_new []) = []
   \<and> redacted (SecureLicenseKey_new []) = js ''***''
   \<and> length (signingKey (RequestSigner_new [])) = 32
   \<and> signingKey (RequestSigner_new []) =
       [0x61, 0xdd, 0xa1, 0x11, 0x45, 0xaa, 0x68, 0xfd, 0xa6, 0xd6, 0x8b, 0xea,
       0xf2, 0x52, 0x75, 0x52, 0xd8, 0x8e, 0x36, 0x45, 0x91, 0xed, 0x99, 0xaf,
       0xa5, 0x67, 0x69, 0x86, 0x80, 0x03, 0x4a, 0xa2]"
  by (simp add: asString_def redacted_def SecureLicenseKey_new_def RequestSigner_new_def
      length_hmac_sha256 utf8_label hmac_label_empty)

text \<open>
  Claim C7, amended. Construction validates nothing and never raises: for every
  credential string, the empty one included, \<open>SecureLicenseKey\<close> stores it unchanged
  and \<open>RequestSigner\<close> holds the 32-byte HMAC-SHA256 of the credential under the
  fixed label.
\<close>

theorem constructors_total:
  "asString (SecureLicenseKey_new k) = k
   \<and> signingKey (RequestSigner_new k)
       = hmac_sha256 (utf8 (js ''truthlinked-request-signing-v1'')) (utf8 k)
   \<and> length (signingKey (RequestSigner_new k)) = 32"
  by (simp add: asString_def SecureLicenseKey_new_def RequestSigner_new_def
      length_hmac_sha256)

theorem constructors_total_witness:
  "asString (SecureLicenseKey_new (js ''test_key'')) = js ''test_key''
   \<and> length (signingKey (RequestSigner_new (js ''test_key''))) = 32"
  using constructors_total [of "js ''test_key''"] by blast

text \<open>
  Claim C9. After \<open>destroy()\<close> the key buffer is 32 zero bytes, a second \<open>destroy()\<close>
  changes nothing, \<open>sign\<close> signs under the all-zero key and \<open>verify\<close> accepts that
  signature. But \<open>verify\<close> on a destroyed signer is not free of faults: a supplied
  signature of the wrong decoded length still makes \<open>crypto.timingSafeEqual\<close> throw, as it
  does on a live signer.
\<close>

theorem destroyed_signer_verify_throws:
  "signingKey (RequestSigner_destroy (RequestSigner_new (js ''test_key''))) = replicate 32 0
   \<and> RequestSigner_destroy (RequestSigner_destroy (RequestSigner_new (js ''test_key'')))
       = RequestSigner_destroy (RequestSigner_new (js ''test_key''))
   \<and> sign 1700000000123 (RequestSigner_destroy (RequestSigner_new (js ''test_key'')))
         (js ''GET'') (js ''/test'') JUndefined
       = \<lparr>timestamp = js ''1700000000'',
          signature = js ''dJXhxc3i9jW8fXogJN0bm6SB067AKeovAJKm1GnedUs=''\<rparr>
   \<and> verify (RequestSigner_destroy (RequestSigner_new (js ''test_key'')))
         (js ''GET'') (js ''/test'') []
         (js ''dJXhxc3i9jW8fXogJN0bm6SB067AKeovAJKm1GnedUs='')
         (js ''1700000000'') = Inr True
   \<and> verify (RequestSigner_destroy (RequestSigner_new (js ''test_key'')))
         (js ''GET'') (js ''/test'') [] [] (js ''1700000000'')
       = Inl ERR_CRYPTO_TIMING_SAFE_EQUAL_LENGTH"
proof -
  have t: "sign_timestamp 1700000000123 = js ''1700000000''"
    by (simp add: sign_timestamp_def Number_toString_def digits_1700000000)
  have m: "sign_message 1700000000123 (js ''GET'') (js ''/test'') JUndefined
     = js ''GET'' @ [0x0A] @ js ''/test'' @ [0x0A] @ js ''1700000000'' @ [0x0A]"
    by (simp add: sign_message_def t sign_bodyStr_def interpolate_def)
  have v: "verify_message (js ''GET'') (js ''/test'') [] (js ''1700000000'')
     = js ''GET'' @ [0x0A] @ js ''/test'' @ [0x0A] @ js ''1700000000'' @ [0x0A]"
    by (simp add: verify_message_def)
  have e: "Buffer_from_base64 [] = []"
    by (simp add: Buffer_from_base64_def)
  have k: "signingKey (RequestSigner_destroy (RequestSigner_new (js ''test_key'')))
     = replicate 32 0"
    by (rule RequestSigner_destroy_zero)
  have s: "base64_encode (hmac_sha256 (replicate 32 0)
      (utf8 (js ''GET'' @ [0x0A] @ js ''/test'' @ [0x0A] @ js ''1700000000'' @ [0x0A])))
     = js ''dJXhxc3i9jW8fXogJN0bm6SB067AKeovAJKm1GnedUs=''"
    unfolding utf8_get_test replicate_32_zero hmac_zero_key base64_zero_key_digest ..
  have d: "Buffer_from_base64 (js ''dJXhxc3i9jW8fXogJN0bm6SB067AKeovAJKm1GnedUs='')
     = hmac_sha256 (replicate 32 0)
         (utf8 (js ''GET'' @ [0x0A] @ js ''/test'' @ [0x0A] @ js ''1700000000'' @ [0x0A]))"
    unfolding s [symmetric] by (rule Buffer_from_base64_encode)
  have 1: "sign 1700000000123 (RequestSigner_destroy (RequestSigner_new (js ''test_key'')))
         (js ''GET'') (js ''/test'') JUndefined
       = \<lparr>timestamp = js ''1700000000'',
          signature = js ''dJXhxc3i9jW8fXogJN0bm6SB067AKeovAJKm1GnedUs=''\<rparr>"
    unfolding sign_unfold k m t s ..
  have 2: "verify (RequestSigner_destroy (RequestSigner_new (js ''test_key'')))
         (js ''GET'') (js ''/test'') []
         (js ''dJXhxc3i9jW8fXogJN0bm6SB067AKeovAJKm1GnedUs='')
         (js ''1700000000'') = Inr True"
    unfolding verify_outcome k v d by (simp add: length_hmac_sha256)
  have 3: "verify (RequestSigner_destroy (RequestSigner_new (js ''test_key'')))
         (js ''GET'') (js ''/test'') [] [] (js ''1700000000'')
       = Inl ERR_CRYPTO_TIMING_SAFE_EQUAL_LENGTH"
    unfolding verify_outcome e by simp
  show ?thesis
    using k RequestSigner_destroy_idem 1 2 3 by simp
qed

end
